theory Spec2Isabelle
  imports Main
begin

section \<open>C++ types\<close>

text \<open>
  The header \<^verbatim>\<open>range/v3/utility/iterator_concepts.hpp\<close> computes with types only.
  A type is an unqualified type together with its top-level \<^verbatim>\<open>const\<close> and
  \<^verbatim>\<open>volatile\<close> qualifiers and its reference kind. A pointer carries the
  cv-qualifiers of its pointee; a pointee is never a reference, and a reference is
  never cv-qualified itself (the flags of a reference type describe the type referred
  to). Class types are known by name; the iterator tags of the standard library and of
  this header are the classes named below.
\<close>

datatype ref_qual = no_ref | lvalue_ref | rvalue_ref

datatype utype =
    Fundamental string
  | Class string
  | Pointer bool bool utype

datatype cpp_type = Ty (ref: ref_qual) (is_const: bool) (is_volatile: bool) (unqual: utype)

definition plain :: "utype \<Rightarrow> cpp_type" where
  "plain u = Ty no_ref False False u"

text \<open>The traits of \<^verbatim>\<open><type_traits>\<close> that the header uses.\<close>

definition std_is_reference :: "cpp_type \<Rightarrow> bool" where
  "std_is_reference T = (ref T \<noteq> no_ref)"

definition std_is_class :: "cpp_type \<Rightarrow> bool" where
  "std_is_class T = (case T of Ty no_ref _ _ (Class _) \<Rightarrow> True | _ \<Rightarrow> False)"

definition std_remove_reference :: "cpp_type \<Rightarrow> cpp_type" where
  "std_remove_reference T = Ty no_ref (is_const T) (is_volatile T) (unqual T)"

definition std_remove_cv :: "cpp_type \<Rightarrow> cpp_type" where
  "std_remove_cv T = (if ref T = no_ref then Ty no_ref False False (unqual T) else T)"

text \<open>\<^verbatim>\<open>T &\<close>, \<^verbatim>\<open>T &&\<close> and \<^verbatim>\<open>T const\<close>, with reference collapsing.\<close>

definition add_lvalue_reference :: "cpp_type \<Rightarrow> cpp_type" where
  "add_lvalue_reference T = Ty lvalue_ref (is_const T) (is_volatile T) (unqual T)"

definition add_rvalue_reference :: "cpp_type \<Rightarrow> cpp_type" where
  "add_rvalue_reference T =
     (if ref T = no_ref then Ty rvalue_ref (is_const T) (is_volatile T) (unqual T) else T)"

definition add_const :: "cpp_type \<Rightarrow> cpp_type" where
  "add_const T = (if ref T = no_ref then Ty no_ref True (is_volatile T) (unqual T) else T)"

text \<open>
  Modelled from the spec: \<^verbatim>\<open>uncvref_t\<close> is declared in a header that is not part of
  the sources at hand; it strips the reference and then the top-level const/volatile
  qualifiers of a type.
\<close>

definition uncvref_t :: "cpp_type \<Rightarrow> cpp_type" where
  "uncvref_t T = std_remove_cv (std_remove_reference T)"

section \<open>Iterator tags\<close>

text \<open>The five tags of the header (lines 32 to 49), each deriving from the one before.\<close>

definition weak_input_iterator_tag :: utype where
  "weak_input_iterator_tag = Class ''ranges::weak_input_iterator_tag''"

definition input_iterator_tag :: utype where
  "input_iterator_tag = Class ''ranges::input_iterator_tag''"

definition forward_iterator_tag :: utype where
  "forward_iterator_tag = Class ''ranges::forward_iterator_tag''"

definition bidirectional_iterator_tag :: utype where
  "bidirectional_iterator_tag = Class ''ranges::bidirectional_iterator_tag''"

definition random_access_iterator_tag :: utype where
  "random_access_iterator_tag = Class ''ranges::random_access_iterator_tag''"

text \<open>The direct base class that each tag names in its declaration.\<close>

definition tag_base :: "utype \<Rightarrow> utype option" where
  "tag_base u =
     (if u = input_iterator_tag then Some weak_input_iterator_tag
      else if u = forward_iterator_tag then Some input_iterator_tag
      else if u = bidirectional_iterator_tag then Some forward_iterator_tag
      else if u = random_access_iterator_tag then Some bidirectional_iterator_tag
      else None)"

text \<open>
  \<open>tag_derived n d b\<close>: following at most \<open>n\<close> base-class edges from \<open>d\<close> reaches
  \<open>b\<close>. The chain of the five tags has four edges.
\<close>

fun tag_derived :: "nat \<Rightarrow> utype \<Rightarrow> utype \<Rightarrow> bool" where
  "tag_derived 0 d b = (d = b)"
| "tag_derived (Suc n) d b =
     (d = b \<or> (case tag_base d of None \<Rightarrow> False | Some d' \<Rightarrow> tag_derived n d' b))"

definition is_ranges_tag :: "utype \<Rightarrow> bool" where
  "is_ranges_tag u = (u = weak_input_iterator_tag \<or> tag_base u \<noteq> None)"

text \<open>The iterator category tags of \<^verbatim>\<open><iterator>\<close>.\<close>

definition std_input_iterator_tag :: utype where
  "std_input_iterator_tag = Class ''std::input_iterator_tag''"

definition std_output_iterator_tag :: utype where
  "std_output_iterator_tag = Class ''std::output_iterator_tag''"

definition std_forward_iterator_tag :: utype where
  "std_forward_iterator_tag = Class ''std::forward_iterator_tag''"

definition std_bidirectional_iterator_tag :: utype where
  "std_bidirectional_iterator_tag = Class ''std::bidirectional_iterator_tag''"

definition std_random_access_iterator_tag :: utype where
  "std_random_access_iterator_tag = Class ''std::random_access_iterator_tag''"

subsection \<open>The category tags of the standard library\<close>

text \<open>
  The four tags that \<^verbatim>\<open>as_ranges_iterator_category\<close> is specialized for, and the base
  class that \<^verbatim>\<open><iterator>\<close> gives each of them: the chain has three edges.
\<close>

definition recognized_std_tags :: "utype list" where
  "recognized_std_tags =
     [std_input_iterator_tag, std_forward_iterator_tag,
      std_bidirectional_iterator_tag, std_random_access_iterator_tag]"

definition std_tag_base :: "utype \<Rightarrow> utype option" where
  "std_tag_base u =
     (if u = std_forward_iterator_tag then Some std_input_iterator_tag
      else if u = std_bidirectional_iterator_tag then Some std_forward_iterator_tag
      else if u = std_random_access_iterator_tag then Some std_bidirectional_iterator_tag
      else None)"

fun std_tag_derived :: "nat \<Rightarrow> utype \<Rightarrow> utype \<Rightarrow> bool" where
  "std_tag_derived 0 d b = (d = b)"
| "std_tag_derived (Suc n) d b =
     (d = b \<or> (case std_tag_base d of None \<Rightarrow> False | Some d' \<Rightarrow> std_tag_derived n d' b))"


text \<open>Each recognized standard tag with the native tag of the same name.\<close>

definition tag_pairs :: "(utype \<times> utype) list" where
  "tag_pairs =
     [(std_input_iterator_tag, input_iterator_tag),
      (std_forward_iterator_tag, forward_iterator_tag),
      (std_bidirectional_iterator_tag, bidirectional_iterator_tag),
      (std_random_access_iterator_tag, random_access_iterator_tag)]"

subsection \<open>\<^verbatim>\<open>detail::as_ranges_iterator_category\<close> (lines 56 to 84)\<close>

text \<open>
  A class template is modelled by the member \<^verbatim>\<open>type\<close> of its instance, \<open>None\<close>
  when the instance has no such member. The four explicit specializations match the
  unqualified standard tags only; every other argument takes the primary template.
\<close>

definition as_ranges_iterator_category :: "cpp_type \<Rightarrow> cpp_type option" where
  "as_ranges_iterator_category T =
     (if T = plain std_input_iterator_tag then Some (plain input_iterator_tag)
      else if T = plain std_forward_iterator_tag then Some (plain forward_iterator_tag)
      else if T = plain std_bidirectional_iterator_tag then Some (plain bidirectional_iterator_tag)
      else if T = plain std_random_access_iterator_tag then Some (plain random_access_iterator_tag)
      else Some T)"

subsection \<open>\<^verbatim>\<open>detail::as_std_iterator_category\<close> (lines 87 to 127)\<close>

text \<open>
  Modelled from the spec: \<^verbatim>\<open>meta::if_\<close> of the meta-programming header, which is not
  part of the sources at hand, selects its second argument when the condition holds and
  its third otherwise.
\<close>

definition meta_if :: "bool \<Rightarrow> 'a \<Rightarrow> 'a \<Rightarrow> 'a" where
  "meta_if c a b = (if c then a else b)"

text \<open>
  The primary template is declared and never defined, and the specialization for the
  weak input tag has an empty body: neither has a member \<^verbatim>\<open>type\<close>.
\<close>

definition as_std_iterator_category :: "cpp_type \<Rightarrow> cpp_type \<Rightarrow> cpp_type option" where
  "as_std_iterator_category Tag Reference =
     (if Tag = plain weak_input_iterator_tag then None
      else if Tag = plain input_iterator_tag then Some (plain std_input_iterator_tag)
      else if Tag = plain forward_iterator_tag then
        Some (meta_if (std_is_reference Reference)
               (plain std_forward_iterator_tag) (plain std_input_iterator_tag))
      else if Tag = plain bidirectional_iterator_tag then
        Some (meta_if (std_is_reference Reference)
               (plain std_bidirectional_iterator_tag) (plain std_input_iterator_tag))
      else if Tag = plain random_access_iterator_tag then
        Some (meta_if (std_is_reference Reference)
               (plain std_random_access_iterator_tag) (plain std_input_iterator_tag))
      else None)"


section \<open>The translation unit\<close>

text \<open>
  The header asks the compiler which expressions type-check and what their types are,
  and it asks the concepts of \<^verbatim>\<open>concepts.hpp\<close>, \<^verbatim>\<open>invokable.hpp\<close>,
  \<^verbatim>\<open>functional.hpp\<close> and \<^verbatim>\<open>move.hpp\<close>, none of which is part of the sources at
  hand. A translation unit answers these questions; every definition below takes one
  as its first argument and holds for all of them.

  An operand of an expression is given by the type of the expression as
  \<^verbatim>\<open>decltype((e))\<close> reports it: \<^verbatim>\<open>T &\<close> for an lvalue, \<^verbatim>\<open>T &&\<close> for an xvalue,
  \<^verbatim>\<open>T\<close> for a prvalue. The answer is \<open>None\<close> when the expression is ill-formed.
\<close>

datatype unary_op = op_deref | op_pre_inc | op_post_inc | op_pre_dec | op_post_dec | op_arrow

datatype binary_op = op_minus | op_plus | op_plus_assign | op_minus_assign | op_subscript

record env =
  \<comment> \<open>expressions: built-in and overloaded operators, calls of the free functions
      \<^verbatim>\<open>indirect_move\<close> and \<^verbatim>\<open>indirect_swap\<close> by name, and the two assignments
      \<^verbatim>\<open>*o = std::move(val<T>())\<close> and \<^verbatim>\<open>*o = val<T>()\<close> for \<^verbatim>\<open>o\<close> of the first type\<close>
  unary_expr :: "unary_op \<Rightarrow> cpp_type \<Rightarrow> cpp_type option"
  binary_expr :: "binary_op \<Rightarrow> cpp_type \<Rightarrow> cpp_type \<Rightarrow> cpp_type option"
  call_expr :: "string \<Rightarrow> cpp_type list \<Rightarrow> cpp_type option"
  deref_move_assign :: "cpp_type \<Rightarrow> cpp_type \<Rightarrow> bool"
  deref_assign :: "cpp_type \<Rightarrow> cpp_type \<Rightarrow> bool"
  \<comment> \<open>the member alias \<^verbatim>\<open>iterator_category\<close> of a class, by the name of the class\<close>
  class_iterator_category :: "string \<Rightarrow> cpp_type option"
  \<comment> \<open>\<^verbatim>\<open>std::is_base_of<B, D>\<close> for classes other than the five tags of the header\<close>
  base_of :: "cpp_type \<Rightarrow> cpp_type \<Rightarrow> bool"
  \<comment> \<open>the traits \<^verbatim>\<open>value_type\<close>, \<^verbatim>\<open>difference_type\<close>, \<^verbatim>\<open>std::is_integral\<close>,
      \<^verbatim>\<open>common_type_t\<close> and \<^verbatim>\<open>ranges::common_reference_t\<close>\<close>
  value_type :: "cpp_type \<Rightarrow> cpp_type option"
  difference_type :: "cpp_type \<Rightarrow> cpp_type option"
  std_is_integral :: "cpp_type \<Rightarrow> bool"
  common_type_t :: "cpp_type \<Rightarrow> cpp_type \<Rightarrow> cpp_type option"
  ranges_common_reference_t :: "cpp_type list \<Rightarrow> cpp_type option"
  \<comment> \<open>the concepts of \<^verbatim>\<open>concepts.hpp\<close>\<close>
  SemiRegular :: "cpp_type \<Rightarrow> bool"
  Regular :: "cpp_type \<Rightarrow> bool"
  Copyable :: "cpp_type \<Rightarrow> bool"
  EqualityComparable :: "cpp_type \<Rightarrow> bool"
  EqualityComparable2 :: "cpp_type \<Rightarrow> cpp_type \<Rightarrow> bool"
  TotallyOrdered :: "cpp_type \<Rightarrow> bool"
  Integral :: "cpp_type \<Rightarrow> bool"
  SignedIntegral :: "cpp_type \<Rightarrow> bool"
  Convertible :: "cpp_type \<Rightarrow> cpp_type \<Rightarrow> bool"
  CommonReference :: "cpp_type list \<Rightarrow> bool"
  \<comment> \<open>the concepts of \<^verbatim>\<open>invokable.hpp\<close> and the result type of an invocation\<close>
  Invokable :: "cpp_type \<Rightarrow> cpp_type list \<Rightarrow> bool"
  RegularInvokable :: "cpp_type \<Rightarrow> cpp_type list \<Rightarrow> bool"
  Invokable_result_t :: "cpp_type \<Rightarrow> cpp_type list \<Rightarrow> cpp_type option"

text \<open>A parameter \<^verbatim>\<open>i\<close> of type \<^verbatim>\<open>I\<close> is an lvalue; \<^verbatim>\<open>std::declval<I>()\<close> is \<^verbatim>\<open>I &&\<close>.\<close>

definition lv :: "cpp_type \<Rightarrow> cpp_type" where
  "lv I = add_lvalue_reference I"

definition declval :: "cpp_type \<Rightarrow> cpp_type" where
  "declval I = add_rvalue_reference I"

definition ident :: cpp_type where
  "ident = plain (Class ''ranges::ident'')"

definition bool_t :: cpp_type where
  "bool_t = plain (Fundamental ''bool'')"

subsection \<open>The concept-checking substrate\<close>

text \<open>
  Modelled from the spec: the helpers of \<^verbatim>\<open>concepts.hpp\<close> and \<^verbatim>\<open>meta.hpp\<close> that the
  requirement lists are written in; neither header is part of the sources at hand. A
  capability is satisfied iff every expression of its \<^verbatim>\<open>requires_\<close> list type-checks
  and every capability it refines holds. \<^verbatim>\<open>valid_expr\<close> asks that an expression
  type-checks, \<^verbatim>\<open>has_type<T>\<close> that it has the type \<^verbatim>\<open>T\<close>, \<^verbatim>\<open>same_type\<close> that two
  expressions have one type, \<^verbatim>\<open>model_of<C>\<close> on an expression that its type satisfies
  \<^verbatim>\<open>C\<close>, \<^verbatim>\<open>convertible_to<T>\<close> that its type converts to \<^verbatim>\<open>T\<close>. \<^verbatim>\<open>fast_and\<close>
  is the conjunction of its arguments and \<^verbatim>\<open>not_\<close> the negation.
\<close>

definition valid_expr :: "cpp_type option \<Rightarrow> bool" where
  "valid_expr e = (e \<noteq> None)"

definition has_type :: "cpp_type \<Rightarrow> cpp_type option \<Rightarrow> bool" where
  "has_type T e = (e = Some T)"

definition same_type :: "cpp_type option \<Rightarrow> cpp_type option \<Rightarrow> bool" where
  "same_type a b = (a \<noteq> None \<and> a = b)"

definition model_of :: "(cpp_type \<Rightarrow> bool) \<Rightarrow> cpp_type option \<Rightarrow> bool" where
  "model_of C e = (case e of None \<Rightarrow> False | Some T \<Rightarrow> C T)"

definition convertible_to :: "env \<Rightarrow> cpp_type \<Rightarrow> cpp_type option \<Rightarrow> bool" where
  "convertible_to E T e = (case e of None \<Rightarrow> False | Some U \<Rightarrow> Convertible E U T)"

definition fast_and :: "bool list \<Rightarrow> bool" where
  "fast_and bs = list_all (\<lambda>b. b) bs"

definition meta_not :: "bool \<Rightarrow> bool" where
  "meta_not b = (\<not> b)"

text \<open>
  Modelled from the spec: the concept \<^verbatim>\<open>Derived\<close> of \<^verbatim>\<open>concepts.hpp\<close>: the first
  class is the second or derives from it, whatever their cv-qualifiers. Among the five
  tags of the header the base classes are those of lines 32 to 49.
\<close>

definition Derived :: "env \<Rightarrow> cpp_type \<Rightarrow> cpp_type \<Rightarrow> bool" where
  "Derived E T U =
     (if ref T = no_ref \<and> ref U = no_ref \<and> is_ranges_tag (unqual T) \<and> is_ranges_tag (unqual U)
      then tag_derived 4 (unqual T) (unqual U)
      else base_of E U T)"

text \<open>
  Modelled from the spec: the concept \<^verbatim>\<open>Common\<close> of \<^verbatim>\<open>concepts.hpp\<close>: the two types
  have a common type and both convert to it.
\<close>

definition Common :: "env \<Rightarrow> cpp_type \<Rightarrow> cpp_type \<Rightarrow> bool" where
  "Common E T U =
     (case common_type_t E T U of
        None \<Rightarrow> False
      | Some C \<Rightarrow> Convertible E T C \<and> Convertible E U C)"

text \<open>
  Modelled from the spec: the concepts \<^verbatim>\<open>InvokablePredicate\<close> and
  \<^verbatim>\<open>InvokableRelation\<close> of \<^verbatim>\<open>invokable.hpp\<close>: the callable is invocable on the
  arguments and its result is boolean-like.
\<close>

definition InvokablePredicate :: "env \<Rightarrow> cpp_type \<Rightarrow> cpp_type list \<Rightarrow> bool" where
  "InvokablePredicate E C args =
     (Invokable E C args \<and> convertible_to E bool_t (Invokable_result_t E C args))"

definition InvokableRelation :: "env \<Rightarrow> cpp_type \<Rightarrow> cpp_type \<Rightarrow> cpp_type \<Rightarrow> bool" where
  "InvokableRelation E C T U = InvokablePredicate E C [T, U]"

section \<open>Associated-type extraction (lines 130 to 174)\<close>

text \<open>
  \<^verbatim>\<open>detail::pointer_type\<close>: the partial specialization for \<^verbatim>\<open>T *\<close> matches an
  unqualified pointer; the one for classes asks for \<^verbatim>\<open>std::declval<T>().operator->()\<close>;
  the primary template has no member \<^verbatim>\<open>type\<close>.
\<close>

definition detail_pointer_type :: "env \<Rightarrow> cpp_type \<Rightarrow> cpp_type option" where
  "detail_pointer_type E T =
     (case T of
        Ty no_ref False False (Pointer c v u) \<Rightarrow> Some T
      | _ \<Rightarrow> if std_is_class T then unary_expr E op_arrow (declval T) else None)"

text \<open>\<^verbatim>\<open>typename T::iterator_category\<close> names a member of a class type only.\<close>

definition member_iterator_category :: "env \<Rightarrow> cpp_type \<Rightarrow> cpp_type option" where
  "member_iterator_category E T =
     (case T of Ty no_ref _ _ (Class n) \<Rightarrow> class_iterator_category E n | _ \<Rightarrow> None)"

definition detail_iterator_category_type :: "env \<Rightarrow> cpp_type \<Rightarrow> cpp_type option" where
  "detail_iterator_category_type E T =
     (case T of
        Ty no_ref False False (Pointer c v u) \<Rightarrow> Some (plain random_access_iterator_tag)
      | _ \<Rightarrow> (case member_iterator_category E T of
                None \<Rightarrow> None
              | Some C \<Rightarrow> as_ranges_iterator_category C))"

definition pointer_type :: "env \<Rightarrow> cpp_type \<Rightarrow> cpp_type option" where
  "pointer_type E T = detail_pointer_type E (uncvref_t T)"

definition iterator_category_type :: "env \<Rightarrow> cpp_type \<Rightarrow> cpp_type option" where
  "iterator_category_type E T = detail_iterator_category_type E (uncvref_t T)"

section \<open>Primitive capability definitions (lines 176 to 405)\<close>

subsection \<open>\<^verbatim>\<open>Readable\<close>\<close>

definition Readable_value_t :: "env \<Rightarrow> cpp_type \<Rightarrow> cpp_type option" where
  "Readable_value_t E I = value_type E I"

definition Readable_reference_t :: "env \<Rightarrow> cpp_type \<Rightarrow> cpp_type option" where
  "Readable_reference_t E I = unary_expr E op_deref (declval I)"

definition Readable_rvalue_reference_t :: "env \<Rightarrow> cpp_type \<Rightarrow> cpp_type option" where
  "Readable_rvalue_reference_t E I = call_expr E ''indirect_move'' [declval I]"

definition Readable_common_reference_t :: "env \<Rightarrow> cpp_type \<Rightarrow> cpp_type option" where
  "Readable_common_reference_t E I =
     (case (Readable_reference_t E I, Readable_value_t E I) of
        (Some R, Some V) \<Rightarrow>
          ranges_common_reference_t E [add_rvalue_reference R, add_lvalue_reference V]
      | _ \<Rightarrow> None)"

definition Readable_pointer_t :: "env \<Rightarrow> cpp_type \<Rightarrow> cpp_type option" where
  "Readable_pointer_t E I = pointer_type E I"

definition Readable :: "env \<Rightarrow> cpp_type \<Rightarrow> bool" where
  "Readable E I =
     (SemiRegular E I \<and>
      (case (Readable_reference_t E I, Readable_value_t E I, Readable_rvalue_reference_t E I) of
         (Some R, Some V, Some RR) \<Rightarrow>
           CommonReference E [add_rvalue_reference R, add_lvalue_reference V] \<and>
           CommonReference E [add_rvalue_reference R, add_rvalue_reference RR] \<and>
           CommonReference E [add_rvalue_reference RR, add_lvalue_reference (add_const V)] \<and>
           same_type (call_expr E ''indirect_move'' [lv I])
             (case unary_expr E op_deref (lv I) of
                None \<Rightarrow> None
              | Some D \<Rightarrow> call_expr E ''indirect_move'' [lv I, D])
       | _ \<Rightarrow> False))"

subsection \<open>\<^verbatim>\<open>MoveWritable\<close> and \<^verbatim>\<open>Writable\<close>\<close>

definition MoveWritable :: "env \<Rightarrow> cpp_type \<Rightarrow> cpp_type \<Rightarrow> bool" where
  "MoveWritable E Out T = (SemiRegular E Out \<and> deref_move_assign E Out T)"

definition Writable :: "env \<Rightarrow> cpp_type \<Rightarrow> cpp_type \<Rightarrow> bool" where
  "Writable E Out T = (MoveWritable E Out T \<and> deref_assign E Out T)"

subsection \<open>\<^verbatim>\<open>IndirectlyMovable\<close> and \<^verbatim>\<open>IndirectlyCopyable\<close>\<close>

definition IndirectlyMovable :: "env \<Rightarrow> cpp_type \<Rightarrow> cpp_type \<Rightarrow> cpp_type \<Rightarrow> bool" where
  "IndirectlyMovable E I Out P =
     (case (Readable_rvalue_reference_t E I, Readable_value_t E I) of
        (Some RR, Some V) \<Rightarrow>
          (case (Invokable_result_t E P [add_rvalue_reference RR],
                 Invokable_result_t E P [add_rvalue_reference V]) of
             (Some PRR, Some PV) \<Rightarrow>
               Readable E I \<and>
               SemiRegular E Out \<and>
               Convertible E (add_rvalue_reference RR) V \<and>
               RegularInvokable E P [add_rvalue_reference RR] \<and>
               RegularInvokable E P [add_rvalue_reference V] \<and>
               MoveWritable E Out PRR \<and>
               MoveWritable E Out PV
           | _ \<Rightarrow> False)
      | _ \<Rightarrow> False)"

definition IndirectlyCopyable :: "env \<Rightarrow> cpp_type \<Rightarrow> cpp_type \<Rightarrow> cpp_type \<Rightarrow> bool" where
  "IndirectlyCopyable E I Out P =
     (IndirectlyMovable E I Out P \<and>
      (case (Readable_reference_t E I, Readable_value_t E I, Readable_common_reference_t E I) of
         (Some R, Some V, Some CR) \<Rightarrow>
           (case (Invokable_result_t E P [add_rvalue_reference R],
                  Invokable_result_t E P [add_rvalue_reference CR],
                  Invokable_result_t E P [add_lvalue_reference (add_const V)]) of
              (Some PR, Some PCR, Some PV) \<Rightarrow>
                Readable E I \<and>
                SemiRegular E Out \<and>
                Convertible E R V \<and>
                RegularInvokable E P [add_rvalue_reference R] \<and>
                RegularInvokable E P [add_rvalue_reference CR] \<and>
                RegularInvokable E P [add_lvalue_reference (add_const V)] \<and>
                Writable E Out PR \<and>
                Writable E Out PCR \<and>
                Writable E Out PV
            | _ \<Rightarrow> False)
       | _ \<Rightarrow> False))"

subsection \<open>\<^verbatim>\<open>IndirectlySwappable\<close>\<close>

definition IndirectlySwappable :: "env \<Rightarrow> cpp_type \<Rightarrow> cpp_type \<Rightarrow> bool" where
  "IndirectlySwappable E I1 I2 =
     (Readable E I1 \<and>
      Readable E I2 \<and>
      valid_expr (call_expr E ''indirect_swap'' [lv I1, lv I2]) \<and>
      valid_expr (call_expr E ''indirect_swap'' [lv I1, lv I1]) \<and>
      valid_expr (call_expr E ''indirect_swap'' [lv I2, lv I2]) \<and>
      valid_expr (call_expr E ''indirect_swap'' [lv I2, lv I1]))"

subsection \<open>Incrementing\<close>

definition WeaklyIncrementable_difference_t :: "env \<Rightarrow> cpp_type \<Rightarrow> cpp_type option" where
  "WeaklyIncrementable_difference_t E I = difference_type E I"

definition WeaklyIncrementable :: "env \<Rightarrow> cpp_type \<Rightarrow> bool" where
  "WeaklyIncrementable E I =
     (SemiRegular E I \<and>
      model_of (std_is_integral E) (WeaklyIncrementable_difference_t E I) \<and>
      has_type (add_lvalue_reference I) (unary_expr E op_pre_inc (lv I)) \<and>
      valid_expr (unary_expr E op_post_inc (lv I)))"

definition Incrementable :: "env \<Rightarrow> cpp_type \<Rightarrow> bool" where
  "Incrementable E I =
     (Regular E I \<and>
      WeaklyIncrementable E I \<and>
      has_type I (unary_expr E op_post_inc (lv I)))"

subsection \<open>The iterator tiers\<close>

definition WeakIterator :: "env \<Rightarrow> cpp_type \<Rightarrow> bool" where
  "WeakIterator E I =
     (WeaklyIncrementable E I \<and>
      Copyable E I \<and>
      valid_expr (unary_expr E op_deref (lv I)))"

definition Iterator :: "env \<Rightarrow> cpp_type \<Rightarrow> bool" where
  "Iterator E I = (WeakIterator E I \<and> EqualityComparable E I)"

definition WeakOutputIterator :: "env \<Rightarrow> cpp_type \<Rightarrow> cpp_type \<Rightarrow> bool" where
  "WeakOutputIterator E Out T = (WeakIterator E Out \<and> Writable E Out T)"

definition OutputIterator :: "env \<Rightarrow> cpp_type \<Rightarrow> cpp_type \<Rightarrow> bool" where
  "OutputIterator E Out T = (WeakOutputIterator E Out T \<and> Iterator E Out)"

definition WeakInputIterator_category_t :: "env \<Rightarrow> cpp_type \<Rightarrow> cpp_type option" where
  "WeakInputIterator_category_t E I = iterator_category_type E I"

definition WeakInputIterator :: "env \<Rightarrow> cpp_type \<Rightarrow> bool" where
  "WeakInputIterator E I =
     (WeakIterator E I \<and>
      Readable E I \<and>
      model_of (\<lambda>C. Derived E C (plain weak_input_iterator_tag)) (WeakInputIterator_category_t E I) \<and>
      model_of (Readable E) (unary_expr E op_post_inc (lv I)))"

definition InputIterator :: "env \<Rightarrow> cpp_type \<Rightarrow> bool" where
  "InputIterator E I =
     (WeakInputIterator E I \<and>
      Iterator E I \<and>
      EqualityComparable E I \<and>
      model_of (\<lambda>C. Derived E C (plain input_iterator_tag)) (WeakInputIterator_category_t E I))"

definition ForwardIterator :: "env \<Rightarrow> cpp_type \<Rightarrow> bool" where
  "ForwardIterator E I =
     (InputIterator E I \<and>
      Incrementable E I \<and>
      model_of (\<lambda>C. Derived E C (plain forward_iterator_tag)) (WeakInputIterator_category_t E I))"

definition BidirectionalIterator :: "env \<Rightarrow> cpp_type \<Rightarrow> bool" where
  "BidirectionalIterator E I =
     (ForwardIterator E I \<and>
      model_of (\<lambda>C. Derived E C (plain bidirectional_iterator_tag))
        (WeakInputIterator_category_t E I) \<and>
      has_type (add_lvalue_reference I) (unary_expr E op_pre_dec (lv I)) \<and>
      has_type I (unary_expr E op_post_dec (lv I)) \<and>
      same_type (unary_expr E op_deref (lv I))
        (case unary_expr E op_post_dec (lv I) of
           None \<Rightarrow> None
         | Some J \<Rightarrow> unary_expr E op_deref J))"

text \<open>
  In \<^verbatim>\<open>RandomAccessIterator\<close> the distance \<^verbatim>\<open>i - i\<close> is an operand of six further
  expressions; \<open>with_distance\<close> types an expression that has it as an operand.
\<close>

definition with_distance :: "env \<Rightarrow> cpp_type \<Rightarrow> (cpp_type \<Rightarrow> cpp_type option) \<Rightarrow> cpp_type option" where
  "with_distance E I f =
     (case binary_expr E op_minus (lv I) (lv I) of None \<Rightarrow> None | Some D \<Rightarrow> f D)"

definition RandomAccessIterator :: "env \<Rightarrow> cpp_type \<Rightarrow> bool" where
  "RandomAccessIterator E I =
     (BidirectionalIterator E I \<and>
      TotallyOrdered E I \<and>
      (case (Readable_common_reference_t E I, WeaklyIncrementable_difference_t E I) of
         (Some V, Some D) \<Rightarrow>
           model_of (\<lambda>C. Derived E C (plain random_access_iterator_tag))
             (WeakInputIterator_category_t E I) \<and>
           model_of (SignedIntegral E) (binary_expr E op_minus (lv I) (lv I)) \<and>
           has_type D (binary_expr E op_minus (lv I) (lv I)) \<and>
           has_type I (with_distance E I (\<lambda>n. binary_expr E op_plus (lv I) n)) \<and>
           has_type I (with_distance E I (\<lambda>n. binary_expr E op_plus n (lv I))) \<and>
           has_type I (with_distance E I (\<lambda>n. binary_expr E op_minus (lv I) n)) \<and>
           has_type (add_lvalue_reference I)
             (with_distance E I (\<lambda>n. binary_expr E op_plus_assign (lv I) n)) \<and>
           has_type (add_lvalue_reference I)
             (with_distance E I (\<lambda>n. binary_expr E op_minus_assign (lv I) n)) \<and>
           convertible_to E V (with_distance E I (\<lambda>n. binary_expr E op_subscript (lv I) n))
       | _ \<Rightarrow> False))"

section \<open>The most-refined selector (lines 458 to 475)\<close>

text \<open>The five capability definitions that \<^verbatim>\<open>iterator_concept\<close> lists, as values.\<close>

datatype concept_def =
    concepts_RandomAccessIterator
  | concepts_BidirectionalIterator
  | concepts_ForwardIterator
  | concepts_InputIterator
  | concepts_WeakInputIterator

fun models :: "env \<Rightarrow> concept_def \<Rightarrow> cpp_type \<Rightarrow> bool" where
  "models E concepts_RandomAccessIterator T = RandomAccessIterator E T"
| "models E concepts_BidirectionalIterator T = BidirectionalIterator E T"
| "models E concepts_ForwardIterator T = ForwardIterator E T"
| "models E concepts_InputIterator T = InputIterator E T"
| "models E concepts_WeakInputIterator T = WeakInputIterator E T"

text \<open>
  Modelled from the spec: \<^verbatim>\<open>concepts::most_refined\<close> of \<^verbatim>\<open>concepts.hpp\<close>, which is
  not part of the sources at hand: given an ordered priority list of capability
  definitions and a candidate type, evaluate in priority order and return the first
  satisfied definition, or be ill-formed (\<open>None\<close>) if none match.
\<close>

fun most_refined :: "env \<Rightarrow> concept_def list \<Rightarrow> cpp_type \<Rightarrow> concept_def option" where
  "most_refined E [] T = None"
| "most_refined E (Head # Tail) T =
     (if models E Head T then Some Head else most_refined E Tail T)"

definition iterator_concept :: "env \<Rightarrow> cpp_type \<Rightarrow> concept_def option" where
  "iterator_concept E T =
     most_refined E
       [concepts_RandomAccessIterator,
        concepts_BidirectionalIterator,
        concepts_ForwardIterator,
        concepts_InputIterator,
        concepts_WeakInputIterator] T"

definition SinglePass :: "env \<Rightarrow> cpp_type \<Rightarrow> bool" where
  "SinglePass E I = fast_and [WeakInputIterator E I, meta_not (ForwardIterator E I)]"

section \<open>Composite constraints (lines 477 to 552)\<close>

text \<open>
  The composite constraints are alias templates whose defaulted parameters name the
  results of the projections on the value, reference and common-reference types of the
  sources. An alias whose parameters or arguments cannot be formed is ill-formed and
  has no value: \<open>None\<close>. Otherwise its value is the conjunction of its arguments.
\<close>

definition Indirect_X :: "env \<Rightarrow> cpp_type \<Rightarrow> cpp_type \<Rightarrow> cpp_type option" where
  "Indirect_X E P I =
     (case Readable_value_t E I of None \<Rightarrow> None | Some V \<Rightarrow> Invokable_result_t E P [V])"

definition Indirect_Y :: "env \<Rightarrow> cpp_type \<Rightarrow> cpp_type \<Rightarrow> cpp_type option" where
  "Indirect_Y E P I =
     (case Readable_reference_t E I of None \<Rightarrow> None | Some R \<Rightarrow> Invokable_result_t E P [R])"

definition Indirect_Z :: "env \<Rightarrow> cpp_type \<Rightarrow> cpp_type \<Rightarrow> cpp_type option" where
  "Indirect_Z E P I =
     (case Readable_common_reference_t E I of
        None \<Rightarrow> None
      | Some CR \<Rightarrow> Invokable_result_t E P [CR])"

definition IndirectInvokable1 :: "env \<Rightarrow> cpp_type \<Rightarrow> cpp_type \<Rightarrow> cpp_type \<Rightarrow> bool option" where
  "IndirectInvokable1 E Fun I P =
     (case (Indirect_X E P I, Indirect_Y E P I, Indirect_Z E P I) of
        (Some X, Some Y, Some Z) \<Rightarrow>
          (case (Invokable_result_t E Fun [X],
                 Invokable_result_t E Fun [Y],
                 Invokable_result_t E Fun [Z]) of
             (Some RX, Some RY, Some RZ) \<Rightarrow>
               Some (fast_and
                 [Invokable E Fun [X],
                  Invokable E Fun [Y],
                  Invokable E Fun [Z],
                  CommonReference E [RX, RY, RZ]])
           | _ \<Rightarrow> None)
      | _ \<Rightarrow> None)"

text \<open>
  The five result types of \<^verbatim>\<open>C\<close> that \<^verbatim>\<open>IndirectInvokable2\<close> names, in the order
  of lines 506 to 510.
\<close>

definition results2 ::
  "env \<Rightarrow> cpp_type \<Rightarrow> cpp_type \<Rightarrow> cpp_type \<Rightarrow> cpp_type \<Rightarrow> cpp_type \<Rightarrow> cpp_type \<Rightarrow> cpp_type
     \<Rightarrow> cpp_type option list" where
  "results2 E C X0 X1 Y0 Y1 Z0 Z1 =
     [Invokable_result_t E C [X0, X1],
      Invokable_result_t E C [Y0, Y1],
      Invokable_result_t E C [Z0, Z1],
      Invokable_result_t E C [X0, Y1],
      Invokable_result_t E C [Y0, X1]]"

definition IndirectInvokable2 ::
  "env \<Rightarrow> cpp_type \<Rightarrow> cpp_type \<Rightarrow> cpp_type \<Rightarrow> cpp_type \<Rightarrow> cpp_type \<Rightarrow> bool option" where
  "IndirectInvokable2 E C I0 I1 P0 P1 =
     (case (Indirect_X E P0 I0, Indirect_X E P1 I1,
            Indirect_Y E P0 I0, Indirect_Y E P1 I1,
            Indirect_Z E P0 I0, Indirect_Z E P1 I1) of
        (Some X0, Some X1, Some Y0, Some Y1, Some Z0, Some Z1) \<Rightarrow>
          (case those (results2 E C X0 X1 Y0 Y1 Z0 Z1) of
             Some Rs \<Rightarrow>
               Some (fast_and
                 [Invokable E C [X0, X1],
                  Invokable E C [Y0, Y1],
                  Invokable E C [Z0, Z1],
                  Invokable E C [X0, Y1],
                  Invokable E C [Y0, X1],
                  CommonReference E Rs])
           | None \<Rightarrow> None)
      | _ \<Rightarrow> None)"

definition IndirectInvokableRelation ::
  "env \<Rightarrow> cpp_type \<Rightarrow> cpp_type \<Rightarrow> cpp_type \<Rightarrow> cpp_type \<Rightarrow> cpp_type \<Rightarrow> bool option" where
  "IndirectInvokableRelation E C I0 I1 P0 P1 =
     (case (Indirect_X E P0 I0, Indirect_X E P1 I1,
            Indirect_Y E P0 I0, Indirect_Y E P1 I1,
            Indirect_Z E P0 I0, Indirect_Z E P1 I1) of
        (Some X0, Some X1, Some Y0, Some Y1, Some Z0, Some Z1) \<Rightarrow>
          (case (IndirectInvokable1 E P0 I0 ident, IndirectInvokable1 E P1 I1 ident) of
             (Some b0, Some b1) \<Rightarrow>
               Some (fast_and
                 [b0,
                  b1,
                  InvokableRelation E C X0 X1,
                  InvokableRelation E C Y0 Y1,
                  InvokableRelation E C Z0 Z1,
                  InvokableRelation E C X0 Y1,
                  InvokableRelation E C Y0 X1])
           | _ \<Rightarrow> None)
      | _ \<Rightarrow> None)"

section \<open>Range-pairing capabilities (lines 617 to 665)\<close>

definition IteratorRange :: "env \<Rightarrow> cpp_type \<Rightarrow> cpp_type \<Rightarrow> bool" where
  "IteratorRange E I S =
     (Iterator E I \<and>
      Regular E S \<and>
      EqualityComparable2 E I S)"

text \<open>\<^verbatim>\<open>SizedIteratorRangeLike_\<close> of lines 632 to 641, named without its trailing underscore.\<close>

definition SizedIteratorRangeLike :: "env \<Rightarrow> cpp_type \<Rightarrow> cpp_type \<Rightarrow> bool" where
  "SizedIteratorRangeLike E I S =
     (IteratorRange E I S \<and>
      model_of (Integral E) (binary_expr E op_minus (lv S) (lv I)) \<and>
      same_type (binary_expr E op_minus (lv S) (lv I)) (binary_expr E op_minus (lv I) (lv S)))"

text \<open>
  \<^verbatim>\<open>SizedIteratorRange\<close> has two \<^verbatim>\<open>requires_\<close> overloads; \<^verbatim>\<open>enable_if_t\<close> leaves
  the first when the two types are the same and the second when they differ. The
  second has no instance when \<^verbatim>\<open>common_type_t<I, S>\<close> does not exist, and asks the
  capability itself of the pairs \<^verbatim>\<open>(I, I)\<close> and \<^verbatim>\<open>(C, C)\<close>.
\<close>

function SizedIteratorRange :: "env \<Rightarrow> cpp_type \<Rightarrow> cpp_type \<Rightarrow> bool" where
  "SizedIteratorRange E I S =
     (if I = S then
        IteratorRange E I S \<and>
        model_of (Integral E) (binary_expr E op_minus (lv I) (lv I))
      else
        (case common_type_t E I S of
           None \<Rightarrow> False
         | Some C \<Rightarrow>
             IteratorRange E I S \<and>
             SizedIteratorRange E I I \<and>
             Common E I S \<and>
             SizedIteratorRange E C C \<and>
             model_of (Integral E) (binary_expr E op_minus (lv S) (lv I)) \<and>
             same_type (binary_expr E op_minus (lv S) (lv I)) (binary_expr E op_minus (lv I) (lv S))))"
  by pat_completeness auto
termination
  by (relation "measure (\<lambda>(E, I, S). if I = S then 0 else 1)") auto

declare SizedIteratorRange.simps [simp del]

section \<open>An example translation unit\<close>

text \<open>
  The built-in types \<^verbatim>\<open>int\<close>, \<^verbatim>\<open>long\<close> (the \<^verbatim>\<open>std::ptrdiff_t\<close> of the unit) and
  \<^verbatim>\<open>bool\<close>, pointers to objects, the callables \<^verbatim>\<open>ranges::ident\<close> and
  \<^verbatim>\<open>ranges::ordered_less\<close>, and
  \<^verbatim>\<open>
  struct Cell     { Cell & operator=(int); };
  struct Sentinel { operator int *() const; };
  bool operator==(Sentinel, Sentinel);       bool operator!=(Sentinel, Sentinel);
  bool operator==(int *, Sentinel);          bool operator!=(int *, Sentinel);
  bool operator==(Sentinel, int *);          bool operator!=(Sentinel, int *);
  long operator-(Sentinel, int *);           long operator-(int *, Sentinel);
  struct Verdict  { operator bool() const; operator double() const; };
  struct Flag     { operator bool() const; };
  struct Rel      { Verdict operator()(int &&, int &&) const;
                    Flag operator()(int const &, int const &) const; };
  \<close>
\<close>

definition int_t :: cpp_type where
  "int_t = plain (Fundamental ''int'')"

definition long_t :: cpp_type where
  "long_t = plain (Fundamental ''long'')"

definition int_ptr :: cpp_type where
  "int_ptr = plain (Pointer False False (Fundamental ''int''))"

definition cell_t :: cpp_type where
  "cell_t = plain (Class ''Cell'')"

definition cell_ptr :: cpp_type where
  "cell_ptr = plain (Pointer False False (Class ''Cell''))"

definition sentinel_t :: cpp_type where
  "sentinel_t = plain (Class ''Sentinel'')"

definition verdict_t :: cpp_type where
  "verdict_t = plain (Class ''Verdict'')"

definition flag_t :: cpp_type where
  "flag_t = plain (Class ''Flag'')"

definition rel_t :: cpp_type where
  "rel_t = plain (Class ''Rel'')"

definition ordered_less :: cpp_type where
  "ordered_less = plain (Class ''ranges::ordered_less'')"

definition is_arith :: "cpp_type \<Rightarrow> bool" where
  "is_arith T = (unqual T = Fundamental ''int'' \<or> unqual T = Fundamental ''long''
                 \<or> unqual T = Fundamental ''bool'')"

definition is_object_ptr :: "cpp_type \<Rightarrow> bool" where
  "is_object_ptr T =
     (case unqual T of Pointer pc pv u \<Rightarrow> u \<noteq> Fundamental ''void'' | _ \<Rightarrow> False)"

definition pointee :: "cpp_type \<Rightarrow> cpp_type" where
  "pointee T = (case unqual T of Pointer pc pv u \<Rightarrow> Ty lvalue_ref pc pv u | _ \<Rightarrow> T)"

definition modifiable_lvalue :: "cpp_type \<Rightarrow> bool" where
  "modifiable_lvalue T = (ref T = lvalue_ref \<and> \<not> is_const T)"

definition ex_unary_expr :: "unary_op \<Rightarrow> cpp_type \<Rightarrow> cpp_type option" where
  "ex_unary_expr op A =
     (if \<not> is_object_ptr A \<or> op = op_arrow then None
      else if op = op_deref then Some (pointee A)
      else if \<not> modifiable_lvalue A then None
      else if op = op_pre_inc \<or> op = op_pre_dec then Some A
      else Some (plain (unqual A)))"

definition ex_binary_expr :: "binary_op \<Rightarrow> cpp_type \<Rightarrow> cpp_type \<Rightarrow> cpp_type option" where
  "ex_binary_expr op A B =
     (if op = op_minus \<and> is_object_ptr A \<and> is_object_ptr B
           \<and> unqual (pointee A) = unqual (pointee B) then Some long_t
      else if op = op_minus \<and> unqual A = unqual sentinel_t \<and> unqual B = unqual int_ptr
        then Some long_t
      else if op = op_minus \<and> unqual A = unqual int_ptr \<and> unqual B = unqual sentinel_t
        then Some long_t
      else if (op = op_minus \<or> op = op_plus) \<and> is_object_ptr A \<and> is_arith B
        then Some (plain (unqual A))
      else if op = op_plus \<and> is_arith A \<and> is_object_ptr B then Some (plain (unqual B))
      else if (op = op_plus_assign \<or> op = op_minus_assign) \<and> is_object_ptr A
           \<and> modifiable_lvalue A \<and> is_arith B then Some A
      else if op = op_subscript \<and> is_object_ptr A \<and> is_arith B then Some (pointee A)
      else None)"

definition ex_call_expr :: "string \<Rightarrow> cpp_type list \<Rightarrow> cpp_type option" where
  "ex_call_expr f args =
     (case args of
        [A] \<Rightarrow>
          if f = ''indirect_move'' \<and> is_object_ptr A
          then Some (add_rvalue_reference (std_remove_reference (pointee A))) else None
      | [A, B] \<Rightarrow>
          if f = ''indirect_move'' \<and> is_object_ptr A \<and> B = pointee A
          then Some (add_rvalue_reference (std_remove_reference (pointee A)))
          else if f = ''indirect_swap'' \<and> is_object_ptr A \<and> is_object_ptr B
               \<and> pointee A = pointee B \<and> \<not> is_const (pointee A)
          then Some (plain (Fundamental ''void''))
          else None
      | _ \<Rightarrow> None)"

definition ex_deref_assign :: "cpp_type \<Rightarrow> cpp_type \<Rightarrow> bool" where
  "ex_deref_assign Out T =
     (is_object_ptr Out \<and> \<not> is_const (pointee Out) \<and>
      (if is_arith (pointee Out) then is_arith T
       else unqual (pointee Out) = Class ''Cell'' \<and> (is_arith T \<or> unqual T = Class ''Cell'')))"

definition ex_value_type :: "cpp_type \<Rightarrow> cpp_type option" where
  "ex_value_type T = (if is_object_ptr T then Some (plain (unqual (pointee T))) else None)"

definition ex_difference_type :: "cpp_type \<Rightarrow> cpp_type option" where
  "ex_difference_type T = (if is_object_ptr T then Some long_t else None)"

definition ex_std_is_integral :: "cpp_type \<Rightarrow> bool" where
  "ex_std_is_integral T = (ref T = no_ref \<and> is_arith T)"

definition ex_SignedIntegral :: "cpp_type \<Rightarrow> bool" where
  "ex_SignedIntegral T = (ex_std_is_integral T \<and> unqual T \<noteq> Fundamental ''bool'')"

definition ex_common_type_t :: "cpp_type \<Rightarrow> cpp_type \<Rightarrow> cpp_type option" where
  "ex_common_type_t A B =
     (if unqual A = unqual B then Some (plain (unqual A))
      else if unqual A = unqual sentinel_t \<and> unqual B = unqual int_ptr then Some int_ptr
      else if unqual A = unqual int_ptr \<and> unqual B = unqual sentinel_t then Some int_ptr
      else if is_arith A \<and> is_arith B then
        (if unqual A = Fundamental ''long'' \<or> unqual B = Fundamental ''long''
         then Some long_t else Some int_t)
      else None)"

text \<open>The common reference of two types of one unqualified type; of a list, from the left.\<close>

definition common_reference2 :: "cpp_type \<Rightarrow> cpp_type \<Rightarrow> cpp_type option" where
  "common_reference2 A B =
     (if A = B then Some A
      else if unqual A \<noteq> unqual B then None
      else if ref A = lvalue_ref \<and> ref B = lvalue_ref then
        Some (Ty lvalue_ref (is_const A \<or> is_const B) (is_volatile A \<or> is_volatile B) (unqual A))
      else if ref A = rvalue_ref \<and> ref B = rvalue_ref then
        Some (Ty rvalue_ref (is_const A \<or> is_const B) (is_volatile A \<or> is_volatile B) (unqual A))
      else if ref A \<noteq> no_ref \<and> ref B \<noteq> no_ref \<and> \<not> is_volatile A \<and> \<not> is_volatile B then
        Some (Ty lvalue_ref True False (unqual A))
      else Some (plain (unqual A)))"

fun ex_common_reference_t :: "cpp_type list \<Rightarrow> cpp_type option" where
  "ex_common_reference_t [] = None"
| "ex_common_reference_t [A] = Some A"
| "ex_common_reference_t (A # B # Ts) =
     (case common_reference2 A B of
        None \<Rightarrow> None
      | Some C \<Rightarrow> ex_common_reference_t (C # Ts))"

definition ex_Regular :: "cpp_type \<Rightarrow> bool" where
  "ex_Regular T =
     (ref T = no_ref \<and> \<not> is_const T \<and>
      (is_object_ptr T \<or> is_arith T \<or> unqual T = unqual sentinel_t))"

definition ex_EqualityComparable2 :: "cpp_type \<Rightarrow> cpp_type \<Rightarrow> bool" where
  "ex_EqualityComparable2 A B =
     (ex_Regular A \<and> ex_Regular B \<and>
      (unqual A = unqual B \<or> (is_arith A \<and> is_arith B)
       \<or> (A = int_ptr \<and> B = sentinel_t) \<or> (A = sentinel_t \<and> B = int_ptr)))"

definition ex_TotallyOrdered :: "cpp_type \<Rightarrow> bool" where
  "ex_TotallyOrdered T = (ex_Regular T \<and> unqual T \<noteq> unqual sentinel_t)"

definition binds :: "cpp_type \<Rightarrow> cpp_type \<Rightarrow> bool" where
  "binds From To =
     (ref To = no_ref
      \<or> (ref To = lvalue_ref \<and> is_const To \<and> \<not> is_volatile To)
      \<or> (ref To = lvalue_ref \<and> ref From = lvalue_ref
          \<and> (is_const To \<or> \<not> is_const From) \<and> (is_volatile To \<or> \<not> is_volatile From))
      \<or> (ref To = rvalue_ref \<and> ref From \<noteq> lvalue_ref
          \<and> (is_const To \<or> \<not> is_const From) \<and> (is_volatile To \<or> \<not> is_volatile From)))"

definition ex_Convertible :: "cpp_type \<Rightarrow> cpp_type \<Rightarrow> bool" where
  "ex_Convertible From To =
     (if unqual From = unqual To then binds From To
      else (ref To = no_ref \<or> (is_const To \<and> \<not> is_volatile To)) \<and>
           ((is_arith From \<and> is_arith To)
            \<or> (unqual From = unqual sentinel_t \<and> unqual To = unqual int_ptr)
            \<or> (unqual From = unqual verdict_t \<and> unqual To = unqual bool_t)
            \<or> (unqual From = unqual flag_t \<and> unqual To = unqual bool_t)))"

definition ex_result_t :: "cpp_type \<Rightarrow> cpp_type list \<Rightarrow> cpp_type option" where
  "ex_result_t F args =
     (case args of
        [A] \<Rightarrow> if unqual F = unqual ident then Some (add_rvalue_reference A) else None
      | [A, B] \<Rightarrow>
          if unqual F = unqual ordered_less \<and> is_arith A \<and> is_arith B then Some bool_t
          else if unqual F = unqual rel_t \<and> unqual A = unqual int_t \<and> unqual B = unqual int_t then
            (if ref A \<noteq> lvalue_ref \<and> ref B \<noteq> lvalue_ref \<and> \<not> is_const A \<and> \<not> is_const B
             then Some verdict_t else Some flag_t)
          else None
      | _ \<Rightarrow> None)"

definition example_env :: env where
  "example_env = \<lparr>
     unary_expr = ex_unary_expr,
     binary_expr = ex_binary_expr,
     call_expr = ex_call_expr,
     deref_move_assign = ex_deref_assign,
     deref_assign = ex_deref_assign,
     class_iterator_category = (\<lambda>n. None),
     base_of = (\<lambda>B D. False),
     value_type = ex_value_type,
     difference_type = ex_difference_type,
     std_is_integral = ex_std_is_integral,
     common_type_t = ex_common_type_t,
     ranges_common_reference_t = ex_common_reference_t,
     SemiRegular = ex_Regular,
     Regular = ex_Regular,
     Copyable = ex_Regular,
     EqualityComparable = ex_Regular,
     EqualityComparable2 = ex_EqualityComparable2,
     TotallyOrdered = ex_TotallyOrdered,
     Integral = ex_std_is_integral,
     SignedIntegral = ex_SignedIntegral,
     Convertible = ex_Convertible,
     CommonReference = (\<lambda>Ts. ex_common_reference_t Ts \<noteq> None),
     Invokable = (\<lambda>F args. ex_result_t F args \<noteq> None),
     RegularInvokable = (\<lambda>F args. ex_result_t F args \<noteq> None),
     Invokable_result_t = ex_result_t \<rparr>"

definition int_lref :: cpp_type where
  "int_lref = add_lvalue_reference int_t"

definition int_rref :: cpp_type where
  "int_rref = add_rvalue_reference int_t"

section \<open>Facts about the model\<close>

lemmas tag_defs =
  weak_input_iterator_tag_def input_iterator_tag_def forward_iterator_tag_def
  bidirectional_iterator_tag_def random_access_iterator_tag_def
  std_input_iterator_tag_def std_output_iterator_tag_def std_forward_iterator_tag_def
  std_bidirectional_iterator_tag_def std_random_access_iterator_tag_def

lemma uncvref_t_Ty: "uncvref_t (Ty r c v u) = plain u"
  by (simp add: uncvref_t_def std_remove_cv_def std_remove_reference_def plain_def)

lemma uncvref_t_plain: "uncvref_t (plain u) = plain u"
  by (simp add: uncvref_t_Ty plain_def)

lemma detail_pointer_type_pointer:
  "detail_pointer_type E (plain (Pointer pc pv p)) = Some (plain (Pointer pc pv p))"
  by (simp add: detail_pointer_type_def plain_def)

lemma detail_iterator_category_type_pointer:
  "detail_iterator_category_type E (plain (Pointer pc pv p)) = Some (plain random_access_iterator_tag)"
  by (simp add: detail_iterator_category_type_def plain_def)

lemma as_ranges_iterator_category_four:
  "as_ranges_iterator_category (plain std_input_iterator_tag) = Some (plain input_iterator_tag)"
  "as_ranges_iterator_category (plain std_forward_iterator_tag) =
     Some (plain forward_iterator_tag)"
  "as_ranges_iterator_category (plain std_bidirectional_iterator_tag) =
     Some (plain bidirectional_iterator_tag)"
  "as_ranges_iterator_category (plain std_random_access_iterator_tag) =
     Some (plain random_access_iterator_tag)"
  by (simp_all add: as_ranges_iterator_category_def plain_def tag_defs)

lemma plain_eq_iff: "plain a = plain b \<longleftrightarrow> a = b"
  by (simp add: plain_def)

lemma tag_pairs_order:
  "list_all (\<lambda>(a, a'). list_all (\<lambda>(b, b'). std_tag_derived 3 a b = tag_derived 4 a' b')
     tag_pairs) tag_pairs"
  by code_simp

lemma native_of_recognized:
  assumes "a \<in> set recognized_std_tags"
    and "as_ranges_iterator_category (plain a) = Some (plain a')"
  shows "(a, a') \<in> set tag_pairs"
proof -
  from assms(1) consider "a = std_input_iterator_tag" | "a = std_forward_iterator_tag"
    | "a = std_bidirectional_iterator_tag" | "a = std_random_access_iterator_tag"
    by (auto simp: recognized_std_tags_def)
  then show ?thesis
  proof cases
    case 1
    with assms(2) have "a' = input_iterator_tag"
      by (simp add: as_ranges_iterator_category_four(1) plain_eq_iff)
    with 1 show ?thesis by (simp add: tag_pairs_def)
  next
    case 2
    with assms(2) have "a' = forward_iterator_tag"
      by (simp add: as_ranges_iterator_category_four(2) plain_eq_iff)
    with 2 show ?thesis by (simp add: tag_pairs_def)
  next
    case 3
    with assms(2) have "a' = bidirectional_iterator_tag"
      by (simp add: as_ranges_iterator_category_four(3) plain_eq_iff)
    with 3 show ?thesis by (simp add: tag_pairs_def)
  next
    case 4
    with assms(2) have "a' = random_access_iterator_tag"
      by (simp add: as_ranges_iterator_category_four(4) plain_eq_iff)
    with 4 show ?thesis by (simp add: tag_pairs_def)
  qed
qed

lemma as_ranges_iterator_category_other:
  assumes "T \<notin> plain ` set recognized_std_tags"
  shows "as_ranges_iterator_category T = Some T"
  using assms by (simp add: recognized_std_tags_def as_ranges_iterator_category_def)

subsection \<open>The example translation unit, evaluated\<close>

lemma example_RandomAccessIterator: "RandomAccessIterator example_env int_ptr"
  by code_simp

lemma example_IndirectlyCopyable: "IndirectlyCopyable example_env int_ptr cell_ptr ident"
  by code_simp

lemma example_SizedIteratorRange: "SizedIteratorRange example_env int_ptr sentinel_t"
  by code_simp

lemma example_SizedIteratorRange_same: "SizedIteratorRange example_env int_ptr int_ptr"
  by code_simp

lemma example_types_differ: "int_ptr \<noteq> sentinel_t"
  by code_simp

lemma example_IndirectInvokable2:
  "IndirectInvokable2 example_env ordered_less int_ptr int_ptr ident ident = Some True"
  by code_simp

lemma example_IndirectInvokableRelation:
  "IndirectInvokableRelation example_env ordered_less int_ptr int_ptr ident ident = Some True"
  by code_simp

section \<open>The claims\<close>

text \<open>
  C1. For every type \<open>T\<close>, \<^verbatim>\<open>iterator_concept<T>\<close> tests RandomAccessIterator,
  BidirectionalIterator, ForwardIterator, InputIterator and WeakInputIterator in this
  order and is the first of them that \<open>T\<close> satisfies; when \<open>T\<close> satisfies none of the
  five it has no result.
\<close>

theorem iterator_concept_first_match:
  "iterator_concept E T =
     (if RandomAccessIterator E T then Some concepts_RandomAccessIterator
      else if BidirectionalIterator E T then Some concepts_BidirectionalIterator
      else if ForwardIterator E T then Some concepts_ForwardIterator
      else if InputIterator E T then Some concepts_InputIterator
      else if WeakInputIterator E T then Some concepts_WeakInputIterator
      else None)"
  by (simp add: iterator_concept_def)

text \<open>
  C2. \<^verbatim>\<open>as_std_iterator_category\<close> maps the native input tag to the standard input
  tag whatever the reference type is; the native forward, bidirectional and
  random-access tags to the standard tag of the same name when the reference type is a
  reference, and to the standard input tag otherwise; and it gives the native weak
  input tag no standard tag.
\<close>

theorem as_std_iterator_category_cases:
  "as_std_iterator_category (plain input_iterator_tag) R = Some (plain std_input_iterator_tag)
   \<and> as_std_iterator_category (plain forward_iterator_tag) R =
       Some (if std_is_reference R then plain std_forward_iterator_tag
             else plain std_input_iterator_tag)
   \<and> as_std_iterator_category (plain bidirectional_iterator_tag) R =
       Some (if std_is_reference R then plain std_bidirectional_iterator_tag
             else plain std_input_iterator_tag)
   \<and> as_std_iterator_category (plain random_access_iterator_tag) R =
       Some (if std_is_reference R then plain std_random_access_iterator_tag
             else plain std_input_iterator_tag)
   \<and> as_std_iterator_category (plain weak_input_iterator_tag) R = None"
  by (simp add: as_std_iterator_category_def meta_if_def plain_def tag_defs)

text \<open>
  C3, as stated: an argument of \<^verbatim>\<open>as_ranges_iterator_category\<close> outside the four
  recognized standard tags is an error with no fallback result. It is not:
  \<^verbatim>\<open>std::output_iterator_tag\<close> takes the primary template, whose member
  \<^verbatim>\<open>type\<close> is the argument itself.
\<close>

theorem as_ranges_iterator_category_fallback:
  "as_ranges_iterator_category (plain std_output_iterator_tag) \<noteq> None
   \<and> as_ranges_iterator_category (plain std_output_iterator_tag) =
       Some (plain std_output_iterator_tag)"
  by (simp add: as_ranges_iterator_category_def plain_def tag_defs)

text \<open>
  C3, amended. \<^verbatim>\<open>as_ranges_iterator_category\<close> has a result for every type. It maps
  each of the four recognized standard tags to the native tag of the same name, so that
  one standard tag derives from another exactly when their native images do, and it
  maps every other type to itself.
\<close>

theorem as_ranges_iterator_category_amended:
  "as_ranges_iterator_category (plain std_input_iterator_tag) = Some (plain input_iterator_tag)
   \<and> as_ranges_iterator_category (plain std_forward_iterator_tag) =
       Some (plain forward_iterator_tag)
   \<and> as_ranges_iterator_category (plain std_bidirectional_iterator_tag) =
       Some (plain bidirectional_iterator_tag)
   \<and> as_ranges_iterator_category (plain std_random_access_iterator_tag) =
       Some (plain random_access_iterator_tag)
   \<and> (\<forall>a b a' b'.
         a \<in> set recognized_std_tags \<and> b \<in> set recognized_std_tags \<and>
         as_ranges_iterator_category (plain a) = Some (plain a') \<and>
         as_ranges_iterator_category (plain b) = Some (plain b')
         \<longrightarrow> (std_tag_derived 3 a b \<longleftrightarrow> tag_derived 4 a' b'))
   \<and> (\<forall>T. T \<notin> plain ` set recognized_std_tags \<longrightarrow> as_ranges_iterator_category T = Some T)"
proof -
  have order: "std_tag_derived 3 a b \<longleftrightarrow> tag_derived 4 a' b'"
    if "a \<in> set recognized_std_tags" "b \<in> set recognized_std_tags"
      "as_ranges_iterator_category (plain a) = Some (plain a')"
      "as_ranges_iterator_category (plain b) = Some (plain b')" for a b a' b'
  proof -
    have "(a, a') \<in> set tag_pairs" and "(b, b') \<in> set tag_pairs"
      using that by (simp_all add: native_of_recognized)
    with tag_pairs_order show ?thesis
      unfolding list_all_iff by fast
  qed
  show ?thesis
    using as_ranges_iterator_category_four order as_ranges_iterator_category_other
    by (intro conjI allI impI) (assumption | blast)+
qed

theorem as_ranges_iterator_category_amended_witness:
  "std_random_access_iterator_tag \<in> set recognized_std_tags
   \<and> std_input_iterator_tag \<in> set recognized_std_tags
   \<and> std_tag_derived 3 std_random_access_iterator_tag std_input_iterator_tag
   \<and> tag_derived 4 random_access_iterator_tag input_iterator_tag
   \<and> plain forward_iterator_tag \<notin> plain ` set recognized_std_tags
   \<and> as_ranges_iterator_category (plain forward_iterator_tag) = Some (plain forward_iterator_tag)"
proof -
  have mem: "std_random_access_iterator_tag \<in> set recognized_std_tags"
    "std_input_iterator_tag \<in> set recognized_std_tags"
    by (simp_all add: recognized_std_tags_def)
  have std: "std_tag_derived 3 std_random_access_iterator_tag std_input_iterator_tag"
    by code_simp
  have out: "plain forward_iterator_tag \<notin> plain ` set recognized_std_tags"
    by (simp add: recognized_std_tags_def plain_def tag_defs)
  note amended = as_ranges_iterator_category_amended
  from amended have img:
    "as_ranges_iterator_category (plain std_random_access_iterator_tag) =
       Some (plain random_access_iterator_tag)"
    "as_ranges_iterator_category (plain std_input_iterator_tag) = Some (plain input_iterator_tag)"
    by blast+
  from amended have ord: "\<And>a b a' b'.
         a \<in> set recognized_std_tags \<Longrightarrow> b \<in> set recognized_std_tags \<Longrightarrow>
         as_ranges_iterator_category (plain a) = Some (plain a') \<Longrightarrow>
         as_ranges_iterator_category (plain b) = Some (plain b')
         \<Longrightarrow> std_tag_derived 3 a b = tag_derived 4 a' b'"
    by blast
  from amended have oth:
    "\<And>T. T \<notin> plain ` set recognized_std_tags \<Longrightarrow> as_ranges_iterator_category T = Some T"
    by blast
  have "tag_derived 4 random_access_iterator_tag input_iterator_tag"
    using ord [OF mem img] std by simp
  moreover have
    "as_ranges_iterator_category (plain forward_iterator_tag) = Some (plain forward_iterator_tag)"
    using oth [OF out] .
  ultimately show ?thesis using mem std out by simp
qed

text \<open>
  C4. A type that satisfies RandomAccessIterator also satisfies BidirectionalIterator,
  ForwardIterator, InputIterator and WeakInputIterator, each asked on its own, and
  \<^verbatim>\<open>iterator_concept\<close> of the type is RandomAccessIterator, never a weaker tier.
\<close>

theorem refinement_chain:
  assumes "RandomAccessIterator E T"
  shows "BidirectionalIterator E T \<and> ForwardIterator E T \<and> InputIterator E T
         \<and> WeakInputIterator E T \<and> iterator_concept E T = Some concepts_RandomAccessIterator"
  using assms
  by (simp add: RandomAccessIterator_def BidirectionalIterator_def ForwardIterator_def
      InputIterator_def iterator_concept_def)

theorem refinement_chain_witness:
  "RandomAccessIterator example_env int_ptr
   \<and> BidirectionalIterator example_env int_ptr \<and> ForwardIterator example_env int_ptr
   \<and> InputIterator example_env int_ptr \<and> WeakInputIterator example_env int_ptr
   \<and> iterator_concept example_env int_ptr = Some concepts_RandomAccessIterator"
  using refinement_chain [OF example_RandomAccessIterator] example_RandomAccessIterator
  by blast

text \<open>
  C5. \<^verbatim>\<open>SinglePass<I>\<close> is true if and only if \<open>I\<close> satisfies WeakInputIterator and
  does not satisfy ForwardIterator.
\<close>

theorem SinglePass_iff:
  "SinglePass E I \<longleftrightarrow> WeakInputIterator E I \<and> \<not> ForwardIterator E I"
  by (simp add: SinglePass_def fast_and_def meta_not_def)

text \<open>
  C6, as stated: IndirectlyCopyable asks that the reference type of the source converts
  to the value type of the destination. It does not: copying from \<^verbatim>\<open>int *\<close> to
  \<^verbatim>\<open>Cell *\<close> through the identity projection is IndirectlyCopyable, the destination
  has the value type \<^verbatim>\<open>Cell\<close>, and \<^verbatim>\<open>int &\<close> does not convert to \<^verbatim>\<open>Cell\<close>.
\<close>

theorem IndirectlyCopyable_destination_counterexample:
  "IndirectlyCopyable example_env int_ptr cell_ptr ident
   \<and> Readable_reference_t example_env int_ptr = Some int_lref
   \<and> Readable_value_t example_env cell_ptr = Some cell_t
   \<and> \<not> Convertible example_env int_lref cell_t"
  by code_simp

text \<open>
  C6, amended. IndirectlyCopyable refines IndirectlyMovable and asks in addition,
  besides the writability of the destination with the three projected results, that
  the unprojected reference type of the source converts to the value type of the
  source itself.
\<close>

theorem IndirectlyCopyable_requires:
  assumes "IndirectlyCopyable E I Out P"
  shows "IndirectlyMovable E I Out P \<and>
         (\<exists>R V CR PR PCR PV.
            Readable_reference_t E I = Some R \<and>
            Readable_value_t E I = Some V \<and>
            Readable_common_reference_t E I = Some CR \<and>
            Convertible E R V \<and>
            Invokable_result_t E P [add_rvalue_reference R] = Some PR \<and>
            Invokable_result_t E P [add_rvalue_reference CR] = Some PCR \<and>
            Invokable_result_t E P [add_lvalue_reference (add_const V)] = Some PV \<and>
            Writable E Out PR \<and> Writable E Out PCR \<and> Writable E Out PV)"
  using assms by (auto simp: IndirectlyCopyable_def split: option.splits)

theorem IndirectlyCopyable_requires_witness:
  "IndirectlyCopyable example_env int_ptr cell_ptr ident
   \<and> IndirectlyMovable example_env int_ptr cell_ptr ident
   \<and> (\<exists>R V. Readable_reference_t example_env int_ptr = Some R \<and>
            Readable_value_t example_env int_ptr = Some V \<and>
            Convertible example_env R V)"
  using IndirectlyCopyable_requires [OF example_IndirectlyCopyable] example_IndirectlyCopyable
  by blast

text \<open>
  C7. SizedIteratorRange of \<open>I\<close> and \<open>S\<close> asks that \<^verbatim>\<open>s - i\<close> and \<^verbatim>\<open>i - s\<close> have one
  integral type; when \<open>I\<close> and \<open>S\<close> differ it asks in addition for a common type \<open>C\<close>
  that both convert to, and that the pairs \<open>(I, I)\<close> and \<open>(C, C)\<close> are
  SizedIteratorRange themselves.
\<close>

theorem SizedIteratorRange_requires:
  assumes "SizedIteratorRange E I S"
  shows "IteratorRange E I S \<and>
         (\<exists>D. binary_expr E op_minus (lv S) (lv I) = Some D \<and>
              binary_expr E op_minus (lv I) (lv S) = Some D \<and> Integral E D) \<and>
         (I \<noteq> S \<longrightarrow>
            (\<exists>C. common_type_t E I S = Some C \<and> Convertible E I C \<and> Convertible E S C \<and>
                 SizedIteratorRange E I I \<and> SizedIteratorRange E C C))"
proof (cases "I = S")
  case True
  with assms show ?thesis
    by (auto simp: SizedIteratorRange.simps [of E S S] model_of_def split: option.splits)
next
  case False
  with assms show ?thesis
    by (auto simp: SizedIteratorRange.simps [of E I S] model_of_def same_type_def Common_def
        split: option.splits)
qed

theorem SizedIteratorRange_requires_witness:
  "SizedIteratorRange example_env int_ptr sentinel_t
   \<and> int_ptr \<noteq> sentinel_t
   \<and> IteratorRange example_env int_ptr sentinel_t
   \<and> (\<exists>D. binary_expr example_env op_minus (lv sentinel_t) (lv int_ptr) = Some D \<and>
          binary_expr example_env op_minus (lv int_ptr) (lv sentinel_t) = Some D \<and>
          Integral example_env D)
   \<and> (\<exists>C. common_type_t example_env int_ptr sentinel_t = Some C \<and>
          Convertible example_env int_ptr C \<and> Convertible example_env sentinel_t C \<and>
          SizedIteratorRange example_env int_ptr int_ptr \<and> SizedIteratorRange example_env C C)"
  using SizedIteratorRange_requires [OF example_SizedIteratorRange]
    example_SizedIteratorRange example_types_differ
  by blast

text \<open>
  C8, as stated: the composite constraint for a binary relation asks that the results
  of the relation on the five combinations share a common reference type. It does
  not: \<^verbatim>\<open>Rel\<close> answers \<^verbatim>\<open>Verdict\<close> on two values and \<^verbatim>\<open>Flag\<close> on the four other
  combinations, the two have no common reference, and IndirectInvokableRelation holds
  (while IndirectInvokable2 does not).
\<close>

theorem IndirectInvokableRelation_common_reference_counterexample:
  "IndirectInvokableRelation example_env rel_t int_ptr int_ptr ident ident = Some True
   \<and> Indirect_X example_env ident int_ptr = Some int_rref
   \<and> Indirect_Y example_env ident int_ptr = Some int_lref
   \<and> Indirect_Z example_env ident int_ptr = Some int_lref
   \<and> those (results2 example_env rel_t int_rref int_rref int_lref int_lref int_lref int_lref)
       = Some [verdict_t, flag_t, flag_t, flag_t, flag_t]
   \<and> \<not> CommonReference example_env [verdict_t, flag_t, flag_t, flag_t, flag_t]
   \<and> IndirectInvokable2 example_env rel_t int_ptr int_ptr ident ident = Some False"
  by code_simp

text \<open>
  C8, amended. With \<open>X\<close>, \<open>Y\<close> and \<open>Z\<close> the projected value, reference and common
  reference of each source: IndirectInvokable2 asks that the callable is invocable on
  \<open>(X0, X1)\<close>, \<open>(Y0, Y1)\<close>, \<open>(Z0, Z1)\<close>, \<open>(X0, Y1)\<close> and \<open>(Y0, X1)\<close> and that its five
  results share a common reference type. IndirectInvokableRelation asks that the
  relation is an invocable relation on the same five combinations and that each
  projection is indirectly invocable on its source; it asks nothing of the results of
  the relation together.
\<close>

theorem IndirectInvokable_requires:
  "(IndirectInvokable2 E C I0 I1 P0 P1 = Some True \<longrightarrow>
      (\<exists>X0 X1 Y0 Y1 Z0 Z1 Rs.
         Indirect_X E P0 I0 = Some X0 \<and> Indirect_X E P1 I1 = Some X1 \<and>
         Indirect_Y E P0 I0 = Some Y0 \<and> Indirect_Y E P1 I1 = Some Y1 \<and>
         Indirect_Z E P0 I0 = Some Z0 \<and> Indirect_Z E P1 I1 = Some Z1 \<and>
         Invokable E C [X0, X1] \<and> Invokable E C [Y0, Y1] \<and> Invokable E C [Z0, Z1] \<and>
         Invokable E C [X0, Y1] \<and> Invokable E C [Y0, X1] \<and>
         those (results2 E C X0 X1 Y0 Y1 Z0 Z1) = Some Rs \<and> CommonReference E Rs))
   \<and> (IndirectInvokableRelation E C I0 I1 P0 P1 = Some True \<longrightarrow>
      (\<exists>X0 X1 Y0 Y1 Z0 Z1.
         Indirect_X E P0 I0 = Some X0 \<and> Indirect_X E P1 I1 = Some X1 \<and>
         Indirect_Y E P0 I0 = Some Y0 \<and> Indirect_Y E P1 I1 = Some Y1 \<and>
         Indirect_Z E P0 I0 = Some Z0 \<and> Indirect_Z E P1 I1 = Some Z1 \<and>
         Invokable E C [X0, X1] \<and> Invokable E C [Y0, Y1] \<and> Invokable E C [Z0, Z1] \<and>
         Invokable E C [X0, Y1] \<and> Invokable E C [Y0, X1] \<and>
         InvokableRelation E C X0 X1 \<and> InvokableRelation E C Y0 Y1 \<and>
         InvokableRelation E C Z0 Z1 \<and> InvokableRelation E C X0 Y1 \<and>
         InvokableRelation E C Y0 X1 \<and>
         IndirectInvokable1 E P0 I0 ident = Some True \<and>
         IndirectInvokable1 E P1 I1 ident = Some True))"
proof (intro conjI impI)
  assume "IndirectInvokable2 E C I0 I1 P0 P1 = Some True"
  then show "\<exists>X0 X1 Y0 Y1 Z0 Z1 Rs.
         Indirect_X E P0 I0 = Some X0 \<and> Indirect_X E P1 I1 = Some X1 \<and>
         Indirect_Y E P0 I0 = Some Y0 \<and> Indirect_Y E P1 I1 = Some Y1 \<and>
         Indirect_Z E P0 I0 = Some Z0 \<and> Indirect_Z E P1 I1 = Some Z1 \<and>
         Invokable E C [X0, X1] \<and> Invokable E C [Y0, Y1] \<and> Invokable E C [Z0, Z1] \<and>
         Invokable E C [X0, Y1] \<and> Invokable E C [Y0, X1] \<and>
         those (results2 E C X0 X1 Y0 Y1 Z0 Z1) = Some Rs \<and> CommonReference E Rs"
    unfolding IndirectInvokable2_def fast_and_def
    by (simp split: option.splits)
next
  assume "IndirectInvokableRelation E C I0 I1 P0 P1 = Some True"
  then show "\<exists>X0 X1 Y0 Y1 Z0 Z1.
         Indirect_X E P0 I0 = Some X0 \<and> Indirect_X E P1 I1 = Some X1 \<and>
         Indirect_Y E P0 I0 = Some Y0 \<and> Indirect_Y E P1 I1 = Some Y1 \<and>
         Indirect_Z E P0 I0 = Some Z0 \<and> Indirect_Z E P1 I1 = Some Z1 \<and>
         Invokable E C [X0, X1] \<and> Invokable E C [Y0, Y1] \<and> Invokable E C [Z0, Z1] \<and>
         Invokable E C [X0, Y1] \<and> Invokable E C [Y0, X1] \<and>
         InvokableRelation E C X0 X1 \<and> InvokableRelation E C Y0 Y1 \<and>
         InvokableRelation E C Z0 Z1 \<and> InvokableRelation E C X0 Y1 \<and>
         InvokableRelation E C Y0 X1 \<and>
         IndirectInvokable1 E P0 I0 ident = Some True \<and>
         IndirectInvokable1 E P1 I1 ident = Some True"
    unfolding IndirectInvokableRelation_def fast_and_def
    by (simp add: InvokableRelation_def InvokablePredicate_def split: option.splits)
qed

theorem IndirectInvokable_requires_witness:
  "IndirectInvokable2 example_env ordered_less int_ptr int_ptr ident ident = Some True
   \<and> IndirectInvokableRelation example_env ordered_less int_ptr int_ptr ident ident = Some True
   \<and> (\<exists>X0 X1 Y0 Y1 Z0 Z1 Rs.
         Invokable example_env ordered_less [X0, X1] \<and>
         Invokable example_env ordered_less [Y0, Y1] \<and>
         Invokable example_env ordered_less [Z0, Z1] \<and>
         Invokable example_env ordered_less [X0, Y1] \<and>
         Invokable example_env ordered_less [Y0, X1] \<and>
         those (results2 example_env ordered_less X0 X1 Y0 Y1 Z0 Z1) = Some Rs \<and>
         CommonReference example_env Rs)
   \<and> (\<exists>X0 X1 Y0 Y1 Z0 Z1.
         InvokableRelation example_env ordered_less X0 X1 \<and>
         InvokableRelation example_env ordered_less Y0 Y1 \<and>
         InvokableRelation example_env ordered_less Z0 Z1 \<and>
         InvokableRelation example_env ordered_less X0 Y1 \<and>
         InvokableRelation example_env ordered_less Y0 X1)"
  using IndirectInvokable_requires [of example_env ordered_less int_ptr int_ptr ident ident]
    example_IndirectInvokable2 example_IndirectInvokableRelation
  by blast

text \<open>
  C9. \<^verbatim>\<open>pointer_type<T>\<close> and \<^verbatim>\<open>iterator_category_type<T>\<close> strip the reference and
  the top-level const/volatile qualifiers of \<open>T\<close> before they dispatch, so a qualified
  type is classified as its unqualified form is; a reference to a const pointer, for
  one, is classified as the pointer.
\<close>

theorem extraction_ignores_cvref:
  "pointer_type E (Ty r c v u) = pointer_type E (plain u)
   \<and> iterator_category_type E (Ty r c v u) = iterator_category_type E (plain u)
   \<and> pointer_type E (Ty lvalue_ref True False (Pointer pc pv p)) = Some (plain (Pointer pc pv p))
   \<and> iterator_category_type E (Ty lvalue_ref True False (Pointer pc pv p))
       = Some (plain random_access_iterator_tag)"
  by (simp add: pointer_type_def iterator_category_type_def uncvref_t_Ty uncvref_t_plain
      detail_pointer_type_pointer detail_iterator_category_type_pointer)

text \<open>
  C10. When the cursor and the sentinel have the same type \<open>I\<close>, SizedIteratorRange
  asks only that the pair is an IteratorRange and that \<^verbatim>\<open>s - i\<close> has an integral
  type: neither the subtraction the other way round nor a common type is asked for.
\<close>

theorem SizedIteratorRange_same_type:
  "SizedIteratorRange E I I \<longleftrightarrow>
     IteratorRange E I I \<and> (\<exists>D. binary_expr E op_minus (lv I) (lv I) = Some D \<and> Integral E D)"
  by (auto simp: SizedIteratorRange.simps [of E I I] model_of_def split: option.splits)

theorem SizedIteratorRange_same_type_witness:
  "SizedIteratorRange example_env int_ptr int_ptr
   \<and> IteratorRange example_env int_ptr int_ptr
   \<and> (\<exists>D. binary_expr example_env op_minus (lv int_ptr) (lv int_ptr) = Some D \<and>
          Integral example_env D)"
  using SizedIteratorRange_same_type [of example_env int_ptr] example_SizedIteratorRange_same
  by blast

end
